theory Spec2Isabelle
  imports Main
begin

section \<open>The tabbed browser shell of starsurf.py\<close>

text \<open>
  The program is one Python file: a class \<open>BrowserTab\<close> (a web view) and a class
  \<open>MainWindow\<close> holding a tab container, an address bar and a window title. The
  methods of \<open>MainWindow\<close> are modelled as functions on a record of that state. A
  method that can raise returns \<open>error + MainWindow\<close>; every raise in the file happens
  before the method has changed anything, so \<open>Inl e\<close> leaves the window as it was.
\<close>

subsection \<open>Configuration\<close>

definition DEFAULT_URL :: string where
  "DEFAULT_URL = ''https://www.google.com''"

definition HOME_URL :: string where
  "HOME_URL = ''https://www.google.com''"

subsection \<open>Errors\<close>

text \<open>
  \<open>Inl e\<close> says that a call ended in a Python exception. \<open>AttributeError\<close> is what
  Python raises for an attribute that is not there: a method called on \<open>None\<close>, or a
  name looked up on a class that does not have it.
\<close>

datatype error = AttributeError

subsection \<open>URLs\<close>

text \<open>
  Modelled from the spec: the URL class of the toolkit (QUrl) is not under src/. A URL
  is kept as the text it was built from, and \<open>toString\<close> gives that text back.
\<close>

datatype QUrl = QUrl (toString: string)

definition is_alpha :: "char \<Rightarrow> bool" where
  "is_alpha c = (let n = (of_char c :: nat) in (65 \<le> n \<and> n \<le> 90) \<or> (97 \<le> n \<and> n \<le> 122))"

definition is_digit :: "char \<Rightarrow> bool" where
  "is_digit c = (let n = (of_char c :: nat) in 48 \<le> n \<and> n \<le> 57)"

definition scheme_char :: "char \<Rightarrow> bool" where
  "scheme_char c = (is_alpha c \<or> is_digit c \<or> c = CHR ''+'' \<or> c = CHR ''-'' \<or> c = CHR ''.'')"

definition to_lower :: "char \<Rightarrow> char" where
  "to_lower c = (let n = (of_char c :: nat) in if 65 \<le> n \<and> n \<le> 90 then char_of (n + 32) else c)"

text \<open>
  Modelled from the spec: \<open>QUrl.scheme()\<close> is toolkit code, not under src/. The spec
  speaks of a text that "already has a recognized URL scheme"; the scheme is the part
  before the first colon when that colon comes before any \<open>?\<close> or \<open>#\<close> and the part
  is a letter followed by letters, digits, \<open>+\<close>, \<open>-\<close> or \<open>.\<close> (RFC 3986), in
  lower case; otherwise it is empty.
\<close>

definition scheme :: "QUrl \<Rightarrow> string" where
  "scheme q =
     (let s = toString q;
          p = takeWhile (\<lambda>c. c \<noteq> CHR '':'' \<and> c \<noteq> CHR ''?'' \<and> c \<noteq> CHR ''#'') s
      in if length p < length s \<and> s ! length p = CHR '':'' \<and> p \<noteq> []
            \<and> is_alpha (hd p) \<and> list_all scheme_char (tl p)
         then map to_lower p else [])"

subsection \<open>BrowserTab\<close>

text \<open>
  A \<open>BrowserTab\<close> is a Python object: \<open>ident\<close> stands for its identity (the source
  compares tabs with \<open>==\<close> and \<open>!=\<close>, which is identity for these objects),
  \<open>tab_url\<close> and \<open>tab_title\<close> are what its \<open>url()\<close> and \<open>title()\<close> return. Every
  tab of the file is built with the one window as parent, so \<open>parent_window\<close> is that
  window and needs no field.
\<close>

record BrowserTab =
  ident :: nat
  tab_url :: QUrl
  tab_title :: string

subsection \<open>The tab container\<close>

text \<open>
  Modelled from the spec: the tab container of the toolkit (QTabWidget) is not under
  src/. The spec's data model has an ordered sequence of tabs, in display order, and an
  active index that is valid whenever the sequence is non-empty. Each page carries the
  label shown on its tab; \<open>currentIndex\<close> is \<open>-1\<close> when there is no page.
\<close>

record QTabWidget =
  pages :: "(BrowserTab \<times> string) list"
  currentIndex :: int

definition count :: "QTabWidget \<Rightarrow> int" where
  "count tw = int (length (pages tw))"

text \<open>
  Modelled from the spec: \<open>QTabWidget.widget\<close> is toolkit code, not under src/. An
  index outside the sequence names no tab; the lookup then gives no widget (\<open>None\<close> in
  Python).
\<close>

definition widget :: "QTabWidget \<Rightarrow> int \<Rightarrow> BrowserTab option" where
  "widget tw index =
     (if 0 \<le> index \<and> index < count tw then Some (fst (pages tw ! nat index)) else None)"

definition currentWidget :: "QTabWidget \<Rightarrow> BrowserTab option" where
  "currentWidget tw = widget tw (currentIndex tw)"

text \<open>
  Modelled from the spec: \<open>QTabWidget.indexOf\<close> is toolkit code, not under src/. It
  gives the position of the page that is the given object, or \<open>-1\<close> when the object is
  not a page.
\<close>

primrec indexOf_pages :: "(BrowserTab \<times> string) list \<Rightarrow> nat \<Rightarrow> int" where
  "indexOf_pages [] r = - 1"
| "indexOf_pages (p # ps) r =
     (if ident (fst p) = r then 0
      else (let k = indexOf_pages ps r in if k = - 1 then - 1 else k + 1))"

definition indexOf :: "QTabWidget \<Rightarrow> nat \<Rightarrow> int" where
  "indexOf tw r = indexOf_pages (pages tw) r"

text \<open>
  Modelled from the spec: \<open>QTabWidget.setTabText\<close> is toolkit code, not under src/. It
  replaces the label of the page at a valid index and does nothing elsewhere.
\<close>

definition setTabText :: "QTabWidget \<Rightarrow> int \<Rightarrow> string \<Rightarrow> QTabWidget" where
  "setTabText tw index label =
     (if 0 \<le> index \<and> index < count tw
      then tw\<lparr>pages := (pages tw)[nat index := (fst (pages tw ! nat index), label)]\<rparr>
      else tw)"

text \<open>
  Modelled from the spec: \<open>QTabWidget.addTab\<close> is toolkit code, not under src/. The new
  page goes to the end of the sequence and its index is returned. The first page of an
  empty container becomes the current one, which the container reports by its
  \<open>currentChanged\<close> signal; the third component is the argument of that signal when it
  is emitted.
\<close>

definition addTab :: "QTabWidget \<Rightarrow> BrowserTab \<Rightarrow> string \<Rightarrow> QTabWidget \<times> int \<times> int option" where
  "addTab tw browser label =
     (if pages tw = []
      then (tw\<lparr>pages := [(browser, label)], currentIndex := 0\<rparr>, 0, Some 0)
      else (tw\<lparr>pages := pages tw @ [(browser, label)]\<rparr>, count tw, None))"

text \<open>
  Modelled from the spec: \<open>QTabWidget.setCurrentIndex\<close> is toolkit code, not under
  src/. Switching fails as a no-op when the index is out of range; \<open>currentChanged\<close> is
  emitted when the current index changes, and only then.
\<close>

definition setCurrentIndex :: "QTabWidget \<Rightarrow> int \<Rightarrow> QTabWidget \<times> int option" where
  "setCurrentIndex tw index =
     (if 0 \<le> index \<and> index < count tw \<and> index \<noteq> currentIndex tw
      then (tw\<lparr>currentIndex := index\<rparr>, Some index)
      else (tw, None))"

text \<open>
  Modelled from the spec: \<open>QTabWidget.removeTab\<close> is toolkit code, not under src/. The
  page at a valid index leaves the sequence. When it was the active one the active index
  is clamped to the nearest remaining index (\<open>-1\<close> when nothing remains); when it stood
  before the active one the active index moves down with its page. Either change is
  reported by \<open>currentChanged\<close>.
\<close>

definition removeTab :: "QTabWidget \<Rightarrow> int \<Rightarrow> QTabWidget \<times> int option" where
  "removeTab tw index =
     (if 0 \<le> index \<and> index < count tw
      then (let ps = take (nat index) (pages tw) @ drop (Suc (nat index)) (pages tw);
                cur = currentIndex tw
            in if index = cur
               then (let new = (if ps = [] then - 1 else min index (int (length ps) - 1))
                     in (\<lparr>pages = ps, currentIndex = new\<rparr>, Some new))
               else if index < cur
               then (\<lparr>pages = ps, currentIndex = cur - 1\<rparr>, Some (cur - 1))
               else (\<lparr>pages = ps, currentIndex = cur\<rparr>, None))
      else (tw, None))"

subsection \<open>MainWindow\<close>

text \<open>
  \<open>tabs\<close> and \<open>url_bar\<close> are the attributes of the source; \<open>windowTitle\<close> is what
  \<open>setWindowTitle\<close> last set. \<open>next_ident\<close> is the identity the next constructed
  \<open>BrowserTab\<close> gets, and \<open>deleted\<close> lists the tabs handed to \<open>deleteLater\<close>.
\<close>

record MainWindow =
  tabs :: QTabWidget
  url_bar :: string
  windowTitle :: string
  next_ident :: nat
  deleted :: "nat list"

text \<open>
  \<open>BrowserTab(self)\<close>: a new object. Modelled from the spec: the web view class of the
  toolkit is not under src/; a view that has loaded nothing has an empty URL and an
  empty title.
\<close>

definition BrowserTab_new :: "MainWindow \<Rightarrow> BrowserTab \<times> MainWindow" where
  "BrowserTab_new w =
     (\<lparr>ident = next_ident w, tab_url = QUrl [], tab_title = []\<rparr>,
      w\<lparr>next_ident := Suc (next_ident w)\<rparr>)"

text \<open>
  \<open>update_url_bar(q, browser=None)\<close>, lines 134-140. The second argument is a
  reference to a tab or \<open>None\<close>; the cursor position is not part of the state.
\<close>

definition update_url_bar :: "QUrl \<Rightarrow> nat option \<Rightarrow> MainWindow \<Rightarrow> MainWindow" where
  "update_url_bar q browser w =
     (if browser \<noteq> map_option ident (currentWidget (tabs w)) then w
      else w\<lparr>url_bar := toString q\<rparr>)"

text \<open>\<open>update_tab_title(title, browser)\<close>, lines 112-119.\<close>

definition update_tab_title :: "string \<Rightarrow> nat \<Rightarrow> MainWindow \<Rightarrow> MainWindow" where
  "update_tab_title title browser w =
     (let index = indexOf (tabs w) browser
      in if index \<noteq> - 1
         then (let w1 = w\<lparr>tabs := setTabText (tabs w) index title\<rparr>
               in if Some browser = map_option ident (currentWidget (tabs w1))
                  then w1\<lparr>windowTitle := ''Python Browser - '' @ title\<rparr>
                  else w1)
         else w)"

text \<open>
  \<open>update_ui_on_tab_change(index)\<close>, lines 146-151. A lookup that gives \<open>None\<close>
  makes \<open>current_browser.url()\<close> raise.
\<close>

definition update_ui_on_tab_change :: "int \<Rightarrow> MainWindow \<Rightarrow> error + MainWindow" where
  "update_ui_on_tab_change index w =
     (if index \<noteq> - 1
      then (case widget (tabs w) index of
              None \<Rightarrow> Inl AttributeError
            | Some current_browser \<Rightarrow>
                Inr (update_tab_title (tab_title current_browser) (ident current_browser)
                      (update_url_bar (tab_url current_browser) (Some (ident current_browser)) w)))
      else Inr w)"

text \<open>
  The window the program goes on with after a call: an exception is raised before the
  call has changed anything, so the window is the one the call started from.
\<close>

definition state_after :: "MainWindow \<Rightarrow> error + MainWindow \<Rightarrow> MainWindow" where
  "state_after w r = (case r of Inl e \<Rightarrow> w | Inr w' \<Rightarrow> w')"

text \<open>
  Line 45 connects \<open>currentChanged\<close> to \<open>update_ui_on_tab_change\<close>: whenever the
  container emits the signal, the slot runs with the signal's argument.
\<close>

definition emit_currentChanged :: "int option \<Rightarrow> MainWindow \<Rightarrow> MainWindow" where
  "emit_currentChanged sig w =
     (case sig of None \<Rightarrow> w | Some index \<Rightarrow> state_after w (update_ui_on_tab_change index w))"

text \<open>
  \<open>add_new_tab(browser, url=None, label="New Tab")\<close>, lines 88-100. \<open>setUrl\<close> sets
  the URL the tab reports; the two \<open>connect\<close> calls make later URL and title reports of
  the tab arrive at \<open>update_url_bar\<close> and \<open>update_tab_title\<close>.
\<close>

definition add_new_tab :: "BrowserTab \<Rightarrow> QUrl option \<Rightarrow> string \<Rightarrow> MainWindow \<Rightarrow> MainWindow" where
  "add_new_tab browser url label w =
     (let url1 = (case url of None \<Rightarrow> QUrl DEFAULT_URL | Some u \<Rightarrow> u);
          browser1 = browser\<lparr>tab_url := url1\<rparr>;
          (tw1, i, sig1) = addTab (tabs w) browser1 label;
          w1 = emit_currentChanged sig1 (w\<lparr>tabs := tw1\<rparr>);
          (tw2, sig2) = setCurrentIndex (tabs w1) i
      in emit_currentChanged sig2 (w1\<lparr>tabs := tw2\<rparr>))"

text \<open>
  \<open>close_tab(index)\<close>, lines 102-110. With \<open>widget = None\<close> the call
  \<open>widget.deleteLater()\<close> raises.
\<close>

definition close_tab :: "int \<Rightarrow> MainWindow \<Rightarrow> error + MainWindow" where
  "close_tab index w =
     (if count (tabs w) < 2 then Inr w
      else (case widget (tabs w) index of
              None \<Rightarrow> Inl AttributeError
            | Some wd \<Rightarrow>
                (let w1 = w\<lparr>deleted := ident wd # deleted w\<rparr>;
                     (tw, sig) = removeTab (tabs w1) index
                 in Inr (emit_currentChanged sig (w1\<lparr>tabs := tw\<rparr>)))))"

text \<open>
  \<open>setUrl\<close> on the tab with the given identity: the page of that tab reports the new
  URL from then on.
\<close>

definition setUrl :: "nat \<Rightarrow> QUrl \<Rightarrow> QTabWidget \<Rightarrow> QTabWidget" where
  "setUrl r q tw =
     tw\<lparr>pages := map (\<lambda>(b, l). if ident b = r then (b\<lparr>tab_url := q\<rparr>, l) else (b, l)) (pages tw)\<rparr>"

text \<open>\<open>navigate_to_url()\<close>, lines 121-132.\<close>

definition navigate_to_url :: "MainWindow \<Rightarrow> error + MainWindow" where
  "navigate_to_url w =
     (let q = QUrl (url_bar w);
          q1 = (if scheme q = []
                then (let url_text = url_bar w
                      in if CHR ''.'' \<in> set url_text
                         then QUrl (''https://'' @ url_text)
                         else QUrl (''https://www.google.com/search?q='' @ url_text))
                else q)
      in case currentWidget (tabs w) of
           None \<Rightarrow> Inl AttributeError
         | Some b \<Rightarrow> Inr (w\<lparr>tabs := setUrl (ident b) q1 (tabs w)\<rparr>))"

text \<open>\<open>navigate_home()\<close>, lines 142-144.\<close>

definition navigate_home :: "MainWindow \<Rightarrow> error + MainWindow" where
  "navigate_home w =
     (case currentWidget (tabs w) of
        None \<Rightarrow> Inl AttributeError
      | Some b \<Rightarrow> Inr (w\<lparr>tabs := setUrl (ident b) (QUrl HOME_URL) (tabs w)\<rparr>))"

text \<open>
  The kinds of window the engine can ask for. In the toolkit they are members of the
  page class (\<open>QWebEnginePage\<close>).
\<close>

datatype WebWindowType = WebBrowserWindow | WebBrowserTab | WebDialog | WebBrowserBackgroundTab

text \<open>
  Modelled from the spec: the web view class of the toolkit (\<open>QWebEngineView\<close>) is not
  under src/. Line 25 reads \<open>QWebEngineView.WebBrowserWindow\<close>. The view class has no
  attribute of that name, the kinds of window being members of the page class, so the
  lookup raises.
\<close>

definition QWebEngineView_WebBrowserWindow :: "error + WebWindowType" where
  "QWebEngineView_WebBrowserWindow = Inl AttributeError"

text \<open>
  \<open>BrowserTab.createWindow(type)\<close>, lines 23-29. The argument is the kind of window
  the engine asks for; \<open>self\<close> is the asking tab. The comparison of line 25 first
  evaluates its right-hand side; only when that gives a value are the two branches
  reached: the new tab of lines 26-28, or the method of the base class, which opens
  nothing here.
\<close>

definition createWindow ::
    "nat \<Rightarrow> WebWindowType \<Rightarrow> MainWindow \<Rightarrow> error + (nat option \<times> MainWindow)" where
  "createWindow self type w =
     (case QWebEngineView_WebBrowserWindow of
        Inl e \<Rightarrow> Inl e
      | Inr kind \<Rightarrow>
          (if type = kind
           then (let (new_tab, w1) = BrowserTab_new w
                 in Inr (Some (ident new_tab),
                         add_new_tab new_tab (Some (QUrl DEFAULT_URL)) ''New Tab'' w1))
           else Inr (None, w)))"

text \<open>
  \<open>MainWindow.__init__\<close>, lines 35-86, as far as the state goes: the title, an empty
  container, an empty address bar, and the initial tab of line 86.
\<close>

definition MainWindow_init :: MainWindow where
  "MainWindow_init =
     (let w0 = \<lparr>tabs = \<lparr>pages = [], currentIndex = - 1\<rparr>, url_bar = [],
                windowTitle = ''Python Browser'', next_ident = 0, deleted = []\<rparr>;
          (b, w1) = BrowserTab_new w0
      in add_new_tab b (Some (QUrl DEFAULT_URL)) ''New Tab'' w1)"

text \<open>
  Opening a tab as the new-tab button of line 82 does, \<open>add_new_tab(BrowserTab(self))\<close>,
  with the optional URL left open.
\<close>

definition open_tab :: "QUrl option \<Rightarrow> MainWindow \<Rightarrow> MainWindow" where
  "open_tab url w = (let (b, w1) = BrowserTab_new w in add_new_tab b url ''New Tab'' w1)"

text \<open>
  Selecting a tab: the container sets its current index and, by line 45, its signal runs
  \<open>update_ui_on_tab_change\<close>.
\<close>

definition switch_tab :: "int \<Rightarrow> MainWindow \<Rightarrow> MainWindow" where
  "switch_tab index w =
     (let (tw, sig) = setCurrentIndex (tabs w) index
      in emit_currentChanged sig (w\<lparr>tabs := tw\<rparr>))"

text \<open>Sequences of opening and closing tabs, each step going on from the window the step before left.\<close>

datatype tab_op = AddTab "QUrl option" | CloseTab int

fun apply_op :: "tab_op \<Rightarrow> MainWindow \<Rightarrow> MainWindow" where
  "apply_op (AddTab url) w = open_tab url w"
| "apply_op (CloseTab index) w = state_after w (close_tab index w)"

fun run :: "tab_op list \<Rightarrow> MainWindow \<Rightarrow> MainWindow" where
  "run [] w = w"
| "run (x # xs) w = run xs (apply_op x w)"

section \<open>What the handlers leave alone\<close>

text \<open>
  The slots change labels, the address bar and the window title; they never add, remove
  or reorder tabs and never move the active index.
\<close>

lemma update_url_bar_tabs: "tabs (update_url_bar q r w) = tabs w"
  by (simp add: update_url_bar_def)

lemma map_update_same: "(map f xs)[i := f (xs ! i)] = map f xs"
  by (metis list_update_id map_update)

lemma setTabText_fst: "map fst (pages (setTabText tw i s)) = map fst (pages tw)"
  by (simp add: setTabText_def count_def map_update map_update_same)

lemma setTabText_currentIndex: "currentIndex (setTabText tw i s) = currentIndex tw"
  by (simp add: setTabText_def)

lemma setTabText_length: "length (pages (setTabText tw i s)) = length (pages tw)"
  by (simp add: setTabText_def)

lemma update_tab_title_fst:
  "map fst (pages (tabs (update_tab_title t r w))) = map fst (pages (tabs w))"
  by (simp add: update_tab_title_def Let_def setTabText_fst)

lemma update_tab_title_currentIndex:
  "currentIndex (tabs (update_tab_title t r w)) = currentIndex (tabs w)"
  by (simp add: update_tab_title_def Let_def setTabText_currentIndex)

lemma update_tab_title_url_bar: "url_bar (update_tab_title t r w) = url_bar w"
  by (simp add: update_tab_title_def Let_def)

lemma update_tab_title_rest:
  "next_ident (update_tab_title t r w) = next_ident w \<and> deleted (update_tab_title t r w) = deleted w"
  by (simp add: update_tab_title_def Let_def)

lemma emit_fst: "map fst (pages (tabs (emit_currentChanged sig w))) = map fst (pages (tabs w))"
  by (cases sig)
     (simp_all add: emit_currentChanged_def state_after_def update_ui_on_tab_change_def
        update_tab_title_fst update_url_bar_tabs split: option.splits)

lemma emit_currentIndex: "currentIndex (tabs (emit_currentChanged sig w)) = currentIndex (tabs w)"
  by (cases sig)
     (simp_all add: emit_currentChanged_def state_after_def update_ui_on_tab_change_def
        update_tab_title_currentIndex update_url_bar_tabs split: option.splits)

lemma length_pages_fst: "length (pages tw) = length (map fst (pages tw))"
  by simp

lemma emit_count: "count (tabs (emit_currentChanged sig w)) = count (tabs w)"
proof -
  have "length (map fst (pages (tabs (emit_currentChanged sig w)))) = length (map fst (pages (tabs w)))"
    by (simp only: emit_fst)
  then show ?thesis by (simp add: count_def)
qed

lemma add_new_tab_fst:
  "map fst (pages (tabs (add_new_tab browser url label w))) =
     map fst (pages (tabs w)) @ [browser\<lparr>tab_url := (case url of None \<Rightarrow> QUrl DEFAULT_URL | Some u \<Rightarrow> u)\<rparr>]"
  by (simp add: add_new_tab_def Let_def addTab_def setCurrentIndex_def emit_fst split: prod.splits if_splits)

lemma emit_None: "emit_currentChanged None w = w"
  by (simp add: emit_currentChanged_def)

lemma add_new_tab_currentIndex:
  "currentIndex (tabs (add_new_tab browser url label w)) = count (tabs w)"
proof (cases "pages (tabs w) = []")
  case True
  then show ?thesis
    by (simp add: add_new_tab_def Let_def addTab_def setCurrentIndex_def emit_currentIndex
        emit_count count_def emit_None)
next
  case False
  then show ?thesis
    by (simp add: add_new_tab_def Let_def addTab_def setCurrentIndex_def emit_currentIndex
        emit_count count_def emit_None)
qed

section \<open>Closing tabs\<close>

lemma close_tab_nonempty:
  assumes "pages (tabs w) \<noteq> []"
  shows "pages (tabs (state_after w (close_tab index w))) \<noteq> []"
proof (cases "count (tabs w) < 2")
  case True
  with assms show ?thesis by (simp add: close_tab_def state_after_def)
next
  case False
  show ?thesis
  proof (cases "widget (tabs w) index")
    case None
    with False assms show ?thesis by (simp add: close_tab_def state_after_def)
  next
    case (Some wd)
    then have r: "0 \<le> index" "index < count (tabs w)"
      by (simp_all add: widget_def split: if_splits)
    let ?ps = "take (nat index) (pages (tabs w)) @ drop (Suc (nat index)) (pages (tabs w))"
    from False r have "length ?ps = length (pages (tabs w)) - 1"
      by (simp add: count_def)
    with False have ne: "?ps \<noteq> []"
      by (auto simp: count_def)
    have "map fst (pages (tabs (state_after w (close_tab index w)))) = map fst ?ps"
      using False Some r
      by (simp add: close_tab_def state_after_def Let_def removeTab_def emit_fst
          split: prod.splits)
    with ne show ?thesis by auto
  qed
qed

lemma open_tab_nonempty: "pages (tabs (open_tab url w)) \<noteq> []"
proof -
  have "map fst (pages (tabs (open_tab url w))) \<noteq> []"
    by (simp add: open_tab_def BrowserTab_new_def add_new_tab_fst)
  then show ?thesis by auto
qed

lemma run_nonempty: "pages (tabs w) \<noteq> [] \<Longrightarrow> pages (tabs (run ops w)) \<noteq> []"
proof (induction ops arbitrary: w)
  case Nil
  then show ?case by simp
next
  case (Cons x xs)
  have "pages (tabs (apply_op x w)) \<noteq> []"
    using Cons.prems by (cases x) (simp_all add: open_tab_nonempty close_tab_nonempty)
  then show ?case by (simp add: Cons.IH)
qed

lemma MainWindow_init_value:
  "MainWindow_init =
     \<lparr>tabs = \<lparr>pages = [(\<lparr>ident = 0, tab_url = QUrl ''https://www.google.com'', tab_title = []\<rparr>, [])],
              currentIndex = 0\<rparr>,
      url_bar = ''https://www.google.com'', windowTitle = ''Python Browser - '',
      next_ident = 1, deleted = []\<rparr>"
  by (simp add: MainWindow_init_def BrowserTab_new_def add_new_tab_def addTab_def
      setCurrentIndex_def emit_currentChanged_def update_ui_on_tab_change_def widget_def
      count_def state_after_def update_url_bar_def update_tab_title_def currentWidget_def
      indexOf_def setTabText_def DEFAULT_URL_def Let_def)

text \<open>
  C1. After startup, which creates exactly one tab, and any finite sequence of tab
  openings and \<open>close_tab\<close> calls with any indices, the tab container is not empty.
\<close>

theorem tabs_never_empty: "pages (tabs (run ops MainWindow_init)) \<noteq> []"
proof -
  have "pages (tabs MainWindow_init) \<noteq> []"
    by (simp add: MainWindow_init_value)
  then show ?thesis by (rule run_nonempty)
qed

theorem tabs_never_empty_witness:
  "pages (tabs (run [AddTab (Some (QUrl ''https://b.test'')), CloseTab 0, CloseTab 0] MainWindow_init)) \<noteq> []
   \<and> length (pages (tabs MainWindow_init)) = 1"
  using tabs_never_empty [of "[AddTab (Some (QUrl ''https://b.test'')), CloseTab 0, CloseTab 0]"]
  by (simp add: MainWindow_init_value)

text \<open>
  C2. On a window with exactly one tab, \<open>close_tab\<close> with any index returns without
  an error and changes nothing: the tabs and the active index are as before.
\<close>

theorem close_last_tab_noop: "count (tabs w) = 1 \<Longrightarrow> close_tab index w = Inr w"
  by (simp add: close_tab_def)

theorem close_last_tab_noop_witness:
  "count (tabs MainWindow_init) = 1 \<and> close_tab 0 MainWindow_init = Inr MainWindow_init"
proof -
  have h: "count (tabs MainWindow_init) = 1"
    by (simp add: MainWindow_init_value count_def)
  show ?thesis using h close_last_tab_noop [OF h, of 0] by simp
qed

lemma two_tabs_value:
  "open_tab None MainWindow_init =
     \<lparr>tabs = \<lparr>pages = [(\<lparr>ident = 0, tab_url = QUrl ''https://www.google.com'', tab_title = []\<rparr>, []),
                       (\<lparr>ident = 1, tab_url = QUrl ''https://www.google.com'', tab_title = []\<rparr>, [])],
              currentIndex = 1\<rparr>,
      url_bar = ''https://www.google.com'', windowTitle = ''Python Browser - '',
      next_ident = 2, deleted = []\<rparr>"
  by (simp add: MainWindow_init_value open_tab_def BrowserTab_new_def add_new_tab_def addTab_def
      setCurrentIndex_def emit_currentChanged_def update_ui_on_tab_change_def widget_def
      count_def state_after_def update_url_bar_def update_tab_title_def currentWidget_def
      indexOf_def setTabText_def DEFAULT_URL_def Let_def)

text \<open>
  C3, as the code has it. On a window with at least two tabs, \<open>close_tab\<close> with an
  index below 0 or not below the number of tabs changes neither the tabs nor the active
  index, but it does not return silently: \<open>close_tab\<close> has no range check, no widget
  is found at the index, and the call ends in an exception. Which exception it is, is not
  part of the statement.
\<close>

theorem close_tab_out_of_range_raises:
  "2 \<le> count (tabs w) \<Longrightarrow> index < 0 \<or> count (tabs w) \<le> index \<Longrightarrow>
     (\<exists>e. close_tab index w = Inl e) \<and> state_after w (close_tab index w) = w"
  by (auto simp add: close_tab_def widget_def state_after_def)

theorem close_tab_out_of_range_raises_witness:
  "2 \<le> count (tabs (open_tab None MainWindow_init))
   \<and> (5 < (0::int) \<or> count (tabs (open_tab None MainWindow_init)) \<le> 5)
   \<and> (\<exists>e. close_tab 5 (open_tab None MainWindow_init) = Inl e)
   \<and> state_after (open_tab None MainWindow_init) (close_tab 5 (open_tab None MainWindow_init))
       = open_tab None MainWindow_init"
proof -
  have h1: "2 \<le> count (tabs (open_tab None MainWindow_init))"
    by (simp add: two_tabs_value count_def)
  have h2: "5 < (0::int) \<or> count (tabs (open_tab None MainWindow_init)) \<le> 5"
    by (simp add: two_tabs_value count_def)
  show ?thesis using h1 h2 close_tab_out_of_range_raises [OF h1 h2] by (simp add: state_after_def)
qed

text \<open>
  C3 as the spec words it, "no error is raised", fails on the window with two tabs at
  index 5: the call does not return a window.
\<close>

theorem close_tab_out_of_range_counterexample:
  "\<not> (\<exists>w'. close_tab 5 (open_tab None MainWindow_init) = Inr w')"
  by (simp add: two_tabs_value close_tab_def widget_def count_def)

section \<open>Opening tabs\<close>

lemma widget_fst:
  "widget tw i = (if 0 \<le> i \<and> i < count tw then Some (map fst (pages tw) ! nat i) else None)"
  by (auto simp add: widget_def count_def)

lemma widget_cong_fst:
  "map fst (pages tw') = map fst (pages tw) \<Longrightarrow> widget tw' i = widget tw i"
proof -
  assume a: "map fst (pages tw') = map fst (pages tw)"
  then have "length (pages tw') = length (pages tw)" by (metis length_map)
  with a show ?thesis by (simp add: widget_fst count_def)
qed

lemma add_new_tab_currentWidget:
  "currentWidget (tabs (add_new_tab browser url label w)) =
     Some (browser\<lparr>tab_url := (case url of None \<Rightarrow> QUrl DEFAULT_URL | Some u \<Rightarrow> u)\<rparr>)"
proof -
  let ?w' = "add_new_tab browser url label w"
  have f: "map fst (pages (tabs ?w')) =
      map fst (pages (tabs w)) @ [browser\<lparr>tab_url := (case url of None \<Rightarrow> QUrl DEFAULT_URL | Some u \<Rightarrow> u)\<rparr>]"
    by (rule add_new_tab_fst)
  then have "length (map fst (pages (tabs ?w'))) = Suc (length (pages (tabs w)))" by simp
  then have l: "length (pages (tabs ?w')) = Suc (length (pages (tabs w)))" by simp
  show ?thesis
    by (simp add: currentWidget_def widget_fst add_new_tab_currentIndex count_def l f nth_append)
qed

lemma indexOf_pages_range:
  "indexOf_pages ps r = - 1 \<or>
   (0 \<le> indexOf_pages ps r \<and> indexOf_pages ps r < int (length ps)
    \<and> ident (fst (ps ! nat (indexOf_pages ps r))) = r)"
proof (induction ps)
  case Nil
  then show ?case by simp
next
  case (Cons p ps)
  show ?case
  proof (cases "ident (fst p) = r")
    case True
    then show ?thesis by simp
  next
    case False
    with Cons show ?thesis
      by (auto simp add: Let_def nat_add_distrib)
  qed
qed

lemma indexOf_pages_fresh:
  "r \<notin> ident ` fst ` set ps \<Longrightarrow> indexOf_pages ps r = - 1"
  by (induction ps) (auto simp add: Let_def)

lemma indexOf_pages_append_fresh:
  "r \<notin> ident ` fst ` set ps \<Longrightarrow> ident (fst p) = r \<Longrightarrow>
     indexOf_pages (ps @ [p]) r = int (length ps)"
  by (induction ps) (auto simp add: Let_def)

lemma update_tab_title_take:
  "indexOf (tabs w) r = - 1 \<or> int n \<le> indexOf (tabs w) r \<Longrightarrow>
     take n (pages (tabs (update_tab_title t r w))) = take n (pages (tabs w))"
  by (auto simp add: update_tab_title_def setTabText_def Let_def)

lemma emit_take:
  assumes "\<And>i b. sig = Some i \<Longrightarrow> widget (tabs w) i = Some b \<Longrightarrow>
             indexOf (tabs w) (ident b) = - 1 \<or> int n \<le> indexOf (tabs w) (ident b)"
  shows "take n (pages (tabs (emit_currentChanged sig w))) = take n (pages (tabs w))"
proof (cases sig)
  case None
  then show ?thesis by (simp add: emit_None)
next
  case (Some i)
  show ?thesis
  proof (cases "i \<noteq> - 1 \<and> widget (tabs w) i \<noteq> None")
    case False
    with Some show ?thesis
      by (auto simp add: emit_currentChanged_def update_ui_on_tab_change_def state_after_def)
  next
    case True
    then obtain b where b: "widget (tabs w) i = Some b" by auto
    let ?w1 = "update_url_bar (tab_url b) (Some (ident b)) w"
    have t: "tabs ?w1 = tabs w" by (rule update_url_bar_tabs)
    from assms [OF Some b] have "indexOf (tabs ?w1) (ident b) = - 1 \<or> int n \<le> indexOf (tabs ?w1) (ident b)"
      by (simp only: t)
    then have "take n (pages (tabs (update_tab_title (tab_title b) (ident b) ?w1))) = take n (pages (tabs ?w1))"
      by (rule update_tab_title_take)
    with Some True b t show ?thesis
      by (simp add: emit_currentChanged_def update_ui_on_tab_change_def state_after_def)
  qed
qed

lemma add_new_tab_take:
  assumes fresh: "ident browser \<notin> ident ` fst ` set (pages (tabs w))"
  shows "take (length (pages (tabs w))) (pages (tabs (add_new_tab browser url label w))) = pages (tabs w)"
proof -
  let ?b = "browser\<lparr>tab_url := (case url of None \<Rightarrow> QUrl DEFAULT_URL | Some u \<Rightarrow> u)\<rparr>"
  let ?ps = "pages (tabs w) @ [(?b, label)]"
  let ?n = "length (pages (tabs w))"
  have idx: "indexOf_pages ?ps (ident ?b) = int ?n"
    using fresh by (simp add: indexOf_pages_append_fresh)
  have key: "take ?n (pages (tabs (emit_currentChanged sig (w\<lparr>tabs := tw\<rparr>)))) = pages (tabs w)"
    if "pages tw = ?ps" and "sig = None \<or> sig = Some (int ?n)" for sig tw
  proof -
    have "take ?n (pages (tabs (emit_currentChanged sig (w\<lparr>tabs := tw\<rparr>)))) = take ?n (pages (tabs (w\<lparr>tabs := tw\<rparr>)))"
    proof (rule emit_take)
      fix i b
      assume s: "sig = Some i" and wd: "widget (tabs (w\<lparr>tabs := tw\<rparr>)) i = Some b"
      from s that(2) have "i = int ?n" by simp
      with wd that(1) have "b = ?b" by (simp add: widget_def count_def split: if_splits)
      with idx that(1) show "indexOf (tabs (w\<lparr>tabs := tw\<rparr>)) (ident b) = - 1 \<or> int ?n \<le> indexOf (tabs (w\<lparr>tabs := tw\<rparr>)) (ident b)"
        by (simp add: indexOf_def)
    qed
    with that(1) show ?thesis by simp
  qed
  show ?thesis
  proof (cases "pages (tabs w) = []")
    case True
    then show ?thesis by simp
  next
    case False
    have e: "emit_currentChanged None v = v" for v by (rule emit_None)
    show ?thesis
    proof (cases "int ?n = currentIndex (tabs w)")
      case True
      with False show ?thesis
        by (simp add: add_new_tab_def addTab_def setCurrentIndex_def Let_def e count_def)
    next
      case ne: False
      have "add_new_tab browser url label w =
              emit_currentChanged (Some (int ?n)) (w\<lparr>tabs := (tabs w)\<lparr>pages := ?ps, currentIndex := int ?n\<rparr>\<rparr>)"
        using False ne by (simp add: add_new_tab_def addTab_def setCurrentIndex_def Let_def e count_def)
      then show ?thesis using key [of "(tabs w)\<lparr>pages := ?ps, currentIndex := int ?n\<rparr>" "Some (int ?n)"]
        by simp
    qed
  qed
qed

text \<open>
  C6. \<open>add_new_tab\<close> has no failing path. For a newly built tab (one that is not a
  page already) the tabs afterwards are the tabs before, labels included, followed by the
  new tab; the active index is the index of the new tab; and the new tab has been sent
  to the given URL, or to the home URL when none is given. The source takes
  \<open>DEFAULT_URL\<close> for the missing URL, which is the same address as \<open>HOME_URL\<close>.
\<close>

theorem add_new_tab_appends:
  assumes "ident browser \<notin> ident ` fst ` set (pages (tabs w))"
  shows "map fst (pages (tabs (add_new_tab browser url label w))) =
           map fst (pages (tabs w)) @ [browser\<lparr>tab_url := (case url of None \<Rightarrow> QUrl HOME_URL | Some u \<Rightarrow> u)\<rparr>]
       \<and> take (length (pages (tabs w))) (pages (tabs (add_new_tab browser url label w))) = pages (tabs w)
       \<and> currentIndex (tabs (add_new_tab browser url label w)) = count (tabs w)
       \<and> currentWidget (tabs (add_new_tab browser url label w)) =
           Some (browser\<lparr>tab_url := (case url of None \<Rightarrow> QUrl HOME_URL | Some u \<Rightarrow> u)\<rparr>)"
proof -
  have h: "HOME_URL = DEFAULT_URL" by (simp add: HOME_URL_def DEFAULT_URL_def)
  show ?thesis
    unfolding h using add_new_tab_take [OF assms]
    by (simp add: add_new_tab_fst add_new_tab_currentIndex add_new_tab_currentWidget)
qed


theorem add_new_tab_appends_witness:
  "1 \<notin> ident ` fst ` set (pages (tabs MainWindow_init))
   \<and> map fst (pages (tabs (add_new_tab \<lparr>ident = 1, tab_url = QUrl [], tab_title = []\<rparr> None ''New Tab'' MainWindow_init))) =
        [\<lparr>ident = 0, tab_url = QUrl ''https://www.google.com'', tab_title = []\<rparr>,
         \<lparr>ident = 1, tab_url = QUrl ''https://www.google.com'', tab_title = []\<rparr>]
   \<and> currentIndex (tabs (add_new_tab \<lparr>ident = 1, tab_url = QUrl [], tab_title = []\<rparr> None ''New Tab'' MainWindow_init)) = 1"
proof -
  have h: "ident \<lparr>ident = 1, tab_url = QUrl [], tab_title = []\<rparr> \<notin> ident ` fst ` set (pages (tabs MainWindow_init))"
    by (simp add: MainWindow_init_value)
  show ?thesis
    using h add_new_tab_appends [OF h, of None "''New Tab''"]
    by (simp add: MainWindow_init_value HOME_URL_def count_def)
qed

section \<open>New windows asked for by the engine\<close>

text \<open>
  C9. The docstring of \<open>createWindow\<close> promises a new tab for a new-window request.
  The method never gets there: for every kind of request, every asking tab and every
  window the lookup on line 25 raises, so no tab is built, appended or made active.
\<close>

theorem createWindow_raises: "createWindow self type w = Inl AttributeError"
  by (simp add: createWindow_def QWebEngineView_WebBrowserWindow_def)

text \<open>
  C10. Line 27 would send the new tab to \<open>DEFAULT_URL\<close>, but it is not reached: on
  the startup window a request of the browser-window kind from the initial tab gives no
  window back, so no tab has been created and none has been sent anywhere.
\<close>

theorem createWindow_navigates_no_tab:
  "\<not> (\<exists>r w'. createWindow 0 WebBrowserWindow MainWindow_init = Inr (r, w'))"
  by (simp add: createWindow_def QWebEngineView_WebBrowserWindow_def)

section \<open>Positions of tabs\<close>

lemma indexOf_pages_member:
  "r \<in> ident ` fst ` set ps \<Longrightarrow> indexOf_pages ps r \<noteq> - 1"
proof (induction ps)
  case Nil
  then show ?case by simp
next
  case (Cons p ps)
  show ?case
  proof (cases "ident (fst p) = r")
    case True
    then show ?thesis by simp
  next
    case False
    with Cons.prems have "r \<in> ident ` fst ` set ps" by auto
    then have "indexOf_pages ps r \<noteq> - 1" by (rule Cons.IH)
    moreover have "indexOf_pages ps r = - 1 \<or> 0 \<le> indexOf_pages ps r"
      using indexOf_pages_range [of ps r] by blast
    ultimately show ?thesis using False by (simp add: Let_def)
  qed
qed

lemma indexOf_pages_distinct:
  "distinct (map (\<lambda>p. ident (fst p)) ps) \<Longrightarrow> i < length ps \<Longrightarrow>
     indexOf_pages ps (ident (fst (ps ! i))) = int i"
proof (induction ps arbitrary: i)
  case Nil
  then show ?case by simp
next
  case (Cons p ps)
  show ?case
  proof (cases i)
    case 0
    then show ?thesis by simp
  next
    case (Suc j)
    with Cons.prems have j: "j < length ps" and d: "distinct (map (\<lambda>p. ident (fst p)) ps)"
      and n: "ident (fst p) \<notin> (\<lambda>p. ident (fst p)) ` set ps"
      by simp_all
    from j have "ident (fst (ps ! j)) \<in> (\<lambda>p. ident (fst p)) ` set ps"
      by (intro image_eqI [where x = "ps ! j"] nth_mem refl)
    with n have "ident (fst p) \<noteq> ident (fst (ps ! j))" by metis
    moreover have "indexOf_pages ps (ident (fst (ps ! j))) = int j"
      using d j by (rule Cons.IH)
    ultimately show ?thesis using Suc by (simp add: Let_def)
  qed
qed

section \<open>Closing the active tab\<close>

text \<open>
  C7. On a window with at least two tabs whose active index is valid, \<open>close_tab\<close>
  on the active index returns a window with one tab fewer whose active index is again
  valid: it is the old index clamped to the last remaining position. The choice of the
  new index is the container's, taken here from the spec's words.
\<close>

theorem close_active_tab_index_valid:
  assumes "2 \<le> count (tabs w)" and "0 \<le> currentIndex (tabs w)"
    and "currentIndex (tabs w) < count (tabs w)"
  shows "\<exists>w'. close_tab (currentIndex (tabs w)) w = Inr w'
           \<and> count (tabs w') = count (tabs w) - 1
           \<and> 0 \<le> currentIndex (tabs w') \<and> currentIndex (tabs w') < count (tabs w')
           \<and> currentIndex (tabs w') = min (currentIndex (tabs w)) (count (tabs w') - 1)"
proof -
  define i where "i = currentIndex (tabs w)"
  define ps where "ps = take (nat i) (pages (tabs w)) @ drop (Suc (nat i)) (pages (tabs w))"
  define new where "new = min i (int (length ps) - 1)"
  define w1 where "w1 = w\<lparr>deleted := ident (fst (pages (tabs w) ! nat i)) # deleted w\<rparr>"
  define w' where "w' = emit_currentChanged (Some new) (w1\<lparr>tabs := \<lparr>pages = ps, currentIndex = new\<rparr>\<rparr>)"
  from assms have v: "0 \<le> i" "i < count (tabs w)" "\<not> count (tabs w) < 2"
    by (simp_all add: i_def)
  from v have len: "int (length ps) = count (tabs w) - 1"
    by (simp add: count_def ps_def)
  with v have ne: "ps \<noteq> []" by auto
  have t: "tabs w1 = tabs w" by (simp add: w1_def)
  have r: "removeTab (tabs w1) i = (\<lparr>pages = ps, currentIndex = new\<rparr>, Some new)"
    using v ne by (simp add: removeTab_def Let_def t ps_def [symmetric] i_def [symmetric] new_def)
  have wd: "widget (tabs w) i = Some (fst (pages (tabs w) ! nat i))"
    using v by (simp add: widget_def)
  have c: "close_tab i w = Inr w'"
    using v by (simp add: close_tab_def wd Let_def w1_def [symmetric] r w'_def)
  have cnt: "count (tabs w') = int (length ps)"
    by (simp add: w'_def emit_count) (simp add: count_def)
  have cur: "currentIndex (tabs w') = new"
    by (simp add: w'_def emit_currentIndex)
  from v len have "0 \<le> new \<and> new < int (length ps)" by (auto simp add: new_def)
  with c cnt cur len show ?thesis
    unfolding i_def [symmetric] by (intro exI [of _ w']) (simp add: new_def)
qed

theorem close_active_tab_index_valid_witness:
  "2 \<le> count (tabs (open_tab None MainWindow_init))
   \<and> 0 \<le> currentIndex (tabs (open_tab None MainWindow_init))
   \<and> currentIndex (tabs (open_tab None MainWindow_init)) < count (tabs (open_tab None MainWindow_init))
   \<and> (\<exists>w'. close_tab 1 (open_tab None MainWindow_init) = Inr w'
           \<and> count (tabs w') = 1 \<and> currentIndex (tabs w') = 0)"
proof -
  have n: "count (tabs (open_tab None MainWindow_init)) = 2"
      "currentIndex (tabs (open_tab None MainWindow_init)) = 1"
    by (simp_all add: two_tabs_value count_def)
  have h1: "2 \<le> count (tabs (open_tab None MainWindow_init))"
    and h2: "0 \<le> currentIndex (tabs (open_tab None MainWindow_init))"
    and h3: "currentIndex (tabs (open_tab None MainWindow_init)) < count (tabs (open_tab None MainWindow_init))"
    by (simp_all add: n)
  show ?thesis
    using close_active_tab_index_valid [OF h1 h2 h3] by (auto simp add: n)
qed

section \<open>The address bar\<close>

lemma setUrl_currentWidget:
  assumes "currentWidget tw = Some b"
  shows "currentWidget (setUrl (ident b) q tw) = Some (b\<lparr>tab_url := q\<rparr>)"
proof -
  from assms have r: "0 \<le> currentIndex tw" "currentIndex tw < count tw"
    and b: "fst (pages tw ! nat (currentIndex tw)) = b"
    by (simp_all add: currentWidget_def widget_def split: if_splits)
  from r have n: "nat (currentIndex tw) < length (pages tw)" by (simp add: count_def)
  obtain l where p: "pages tw ! nat (currentIndex tw) = (b, l)"
    using b by (cases "pages tw ! nat (currentIndex tw)") simp
  show ?thesis
    using r n p by (simp add: currentWidget_def widget_def setUrl_def count_def)
qed

lemma scheme_examples:
  "scheme (QUrl ''example.com'') = []"
  "scheme (QUrl ''https://x.org'') = ''https''"
  "scheme (QUrl ''hello world'') = []"
  by (simp_all add: scheme_def is_alpha_def scheme_char_def is_digit_def to_lower_def)

text \<open>
  C4. With any text in the address bar, \<open>navigate_to_url\<close> sends the active tab to
  the text itself when the text has a scheme, else to \<open>https://\<close> followed by the
  text when the text holds a dot, else to the search address followed by the text as it
  is. So \<open>example.com\<close> goes to \<open>https://example.com\<close>, \<open>https://x.org\<close> stays
  as it is, and \<open>hello world\<close> goes to the search address ending in \<open>hello world\<close>.
\<close>

theorem navigate_to_url_resolves:
  assumes "currentWidget (tabs w) = Some b"
  shows "(\<exists>w'. navigate_to_url (w\<lparr>url_bar := typed\<rparr>) = Inr w'
            \<and> currentWidget (tabs w') =
                Some (b\<lparr>tab_url :=
                  (if scheme (QUrl typed) \<noteq> [] then QUrl typed
                   else if CHR ''.'' \<in> set typed then QUrl (''https://'' @ typed)
                   else QUrl (''https://www.google.com/search?q='' @ typed))\<rparr>))
       \<and> (\<exists>w'. navigate_to_url (w\<lparr>url_bar := ''example.com''\<rparr>) = Inr w'
            \<and> map_option tab_url (currentWidget (tabs w')) = Some (QUrl ''https://example.com''))
       \<and> (\<exists>w'. navigate_to_url (w\<lparr>url_bar := ''https://x.org''\<rparr>) = Inr w'
            \<and> map_option tab_url (currentWidget (tabs w')) = Some (QUrl ''https://x.org''))
       \<and> (\<exists>w'. navigate_to_url (w\<lparr>url_bar := ''hello world''\<rparr>) = Inr w'
            \<and> map_option tab_url (currentWidget (tabs w')) =
                Some (QUrl ''https://www.google.com/search?q=hello world''))"
proof -
  have g: "\<exists>w'. navigate_to_url (w\<lparr>url_bar := t\<rparr>) = Inr w'
            \<and> currentWidget (tabs w') =
                Some (b\<lparr>tab_url :=
                  (if scheme (QUrl t) \<noteq> [] then QUrl t
                   else if CHR ''.'' \<in> set t then QUrl (''https://'' @ t)
                   else QUrl (''https://www.google.com/search?q='' @ t))\<rparr>)" for t
    using assms by (simp add: navigate_to_url_def Let_def setUrl_currentWidget)
  have e1: "\<exists>w'. navigate_to_url (w\<lparr>url_bar := ''example.com''\<rparr>) = Inr w'
            \<and> map_option tab_url (currentWidget (tabs w')) = Some (QUrl ''https://example.com'')"
    using g [of "''example.com''"] by (auto simp add: scheme_examples)
  have e2: "\<exists>w'. navigate_to_url (w\<lparr>url_bar := ''https://x.org''\<rparr>) = Inr w'
            \<and> map_option tab_url (currentWidget (tabs w')) = Some (QUrl ''https://x.org'')"
    using g [of "''https://x.org''"] by (auto simp add: scheme_examples)
  have e3: "\<exists>w'. navigate_to_url (w\<lparr>url_bar := ''hello world''\<rparr>) = Inr w'
            \<and> map_option tab_url (currentWidget (tabs w')) =
                Some (QUrl ''https://www.google.com/search?q=hello world'')"
    using g [of "''hello world''"] by (auto simp add: scheme_examples)
  from g [of typed] e1 e2 e3 show ?thesis by (intro conjI)
qed

theorem navigate_to_url_resolves_witness:
  "currentWidget (tabs MainWindow_init) =
      Some \<lparr>ident = 0, tab_url = QUrl ''https://www.google.com'', tab_title = []\<rparr>
   \<and> (\<exists>w'. navigate_to_url (MainWindow_init\<lparr>url_bar := ''ftp://files.test''\<rparr>) = Inr w'
          \<and> map_option tab_url (currentWidget (tabs w')) = Some (QUrl ''ftp://files.test''))
   \<and> (\<exists>w'. navigate_to_url (MainWindow_init\<lparr>url_bar := ''example.com''\<rparr>) = Inr w'
          \<and> map_option tab_url (currentWidget (tabs w')) = Some (QUrl ''https://example.com''))"
proof -
  have h: "currentWidget (tabs MainWindow_init) =
      Some \<lparr>ident = 0, tab_url = QUrl ''https://www.google.com'', tab_title = []\<rparr>"
    by (simp add: MainWindow_init_value currentWidget_def widget_def count_def)
  have s: "scheme (QUrl ''ftp://files.test'') = ''ftp''"
    by (simp add: scheme_def is_alpha_def scheme_char_def is_digit_def to_lower_def)
  show ?thesis
    using h navigate_to_url_resolves [OF h, of "''ftp://files.test''"]
    by (auto simp add: s)
qed

section \<open>Reports from the tabs\<close>

lemma setTabText_snd:
  "0 \<le> i \<Longrightarrow> i < count tw \<Longrightarrow>
     map snd (pages (setTabText tw i s)) = (map snd (pages tw))[nat i := s]"
  by (simp add: setTabText_def map_update)

lemma currentWidget_setTabText: "currentWidget (setTabText tw i s) = currentWidget tw"
  by (simp add: currentWidget_def setTabText_currentIndex widget_cong_fst [OF setTabText_fst])

lemma currentWidget_indexOf:
  assumes "map_option ident (currentWidget tw) = Some r"
  shows "indexOf tw r \<noteq> - 1"
proof -
  from assms obtain b where b: "currentWidget tw = Some b" and r: "ident b = r" by auto
  from b have n: "nat (currentIndex tw) < length (pages tw)"
    and f: "fst (pages tw ! nat (currentIndex tw)) = b"
    by (auto simp add: currentWidget_def widget_def count_def split: if_splits)
  from n have "pages tw ! nat (currentIndex tw) \<in> set (pages tw)" by (rule nth_mem)
  then have "ident (fst (pages tw ! nat (currentIndex tw))) \<in> ident ` fst ` set (pages tw)"
    by (intro imageI)
  with f r have "r \<in> ident ` fst ` set (pages tw)" by simp
  then show ?thesis unfolding indexOf_def by (rule indexOf_pages_member)
qed

lemma indexOf_range:
  "indexOf tw r \<noteq> - 1 \<Longrightarrow> 0 \<le> indexOf tw r \<and> indexOf tw r < count tw"
  using indexOf_pages_range [of "pages tw" r] by (auto simp add: indexOf_def count_def)

text \<open>
  C5, as the code has it. A URL report sets the address bar when it comes from the
  active tab and changes nothing otherwise. A title report never touches the address bar,
  the active index or the order of the tabs; it sets the window title when it comes from
  the active tab and leaves it otherwise; and it sets the label of the reporting tab,
  active or not, as long as that tab is still a page.
\<close>

theorem tab_events_display:
  "update_url_bar q (Some browser) w =
     (if Some browser = map_option ident (currentWidget (tabs w))
      then w\<lparr>url_bar := toString q\<rparr> else w)
   \<and> url_bar (update_tab_title title browser w) = url_bar w
   \<and> windowTitle (update_tab_title title browser w) =
       (if Some browser = map_option ident (currentWidget (tabs w))
        then ''Python Browser - '' @ title else windowTitle w)
   \<and> currentIndex (tabs (update_tab_title title browser w)) = currentIndex (tabs w)
   \<and> map fst (pages (tabs (update_tab_title title browser w))) = map fst (pages (tabs w))
   \<and> map snd (pages (tabs (update_tab_title title browser w))) =
       (if indexOf (tabs w) browser = - 1 then map snd (pages (tabs w))
        else (map snd (pages (tabs w)))[nat (indexOf (tabs w) browser) := title])"
proof -
  have a: "update_url_bar q (Some browser) w =
     (if Some browser = map_option ident (currentWidget (tabs w))
      then w\<lparr>url_bar := toString q\<rparr> else w)"
    by (simp add: update_url_bar_def)
  have b: "windowTitle (update_tab_title title browser w) =
       (if Some browser = map_option ident (currentWidget (tabs w))
        then ''Python Browser - '' @ title else windowTitle w)"
  proof (cases "Some browser = map_option ident (currentWidget (tabs w))")
    case True
    then have "indexOf (tabs w) browser \<noteq> - 1" by (intro currentWidget_indexOf) simp
    with True show ?thesis
      by (simp add: update_tab_title_def Let_def currentWidget_setTabText)
  next
    case False
    then show ?thesis
      by (simp add: update_tab_title_def Let_def currentWidget_setTabText)
  qed
  have c: "map snd (pages (tabs (update_tab_title title browser w))) =
       (if indexOf (tabs w) browser = - 1 then map snd (pages (tabs w))
        else (map snd (pages (tabs w)))[nat (indexOf (tabs w) browser) := title])"
  proof (cases "indexOf (tabs w) browser = - 1")
    case True
    then show ?thesis by (simp add: update_tab_title_def)
  next
    case False
    with indexOf_range [OF False] show ?thesis
      by (simp add: update_tab_title_def Let_def setTabText_snd)
  qed
  from a b c show ?thesis
    by (simp only: update_tab_title_url_bar update_tab_title_currentIndex update_tab_title_fst simp_thms)
qed

theorem tab_events_display_witness:
  "Some 0 \<noteq> map_option ident (currentWidget (tabs (open_tab None MainWindow_init)))
   \<and> update_url_bar (QUrl ''https://b.test'') (Some 0) (open_tab None MainWindow_init)
       = open_tab None MainWindow_init
   \<and> url_bar (update_tab_title ''T'' 0 (open_tab None MainWindow_init)) = ''https://www.google.com''
   \<and> windowTitle (update_tab_title ''T'' 0 (open_tab None MainWindow_init)) = ''Python Browser - ''
   \<and> map snd (pages (tabs (update_tab_title ''T'' 0 (open_tab None MainWindow_init)))) = [''T'', []]"
proof -
  have n: "map_option ident (currentWidget (tabs (open_tab None MainWindow_init))) = Some 1"
      "indexOf (tabs (open_tab None MainWindow_init)) 0 = 0"
      "map snd (pages (tabs (open_tab None MainWindow_init))) = [[], []]"
      "url_bar (open_tab None MainWindow_init) = ''https://www.google.com''"
      "windowTitle (open_tab None MainWindow_init) = ''Python Browser - ''"
    by (simp_all add: two_tabs_value currentWidget_def widget_def count_def indexOf_def)
  show ?thesis
    using tab_events_display [of "QUrl ''https://b.test''" 0 "open_tab None MainWindow_init" "''T''"]
    by (simp add: n)
qed

text \<open>
  C5 as the spec words it, "the displayed tab label is left unchanged" for a report
  from a tab that is not active, fails on the window with two tabs, the second active:
  a title report from the first changes the labels.
\<close>

theorem background_title_event_counterexample:
  "Some 0 \<noteq> map_option ident (currentWidget (tabs (open_tab None MainWindow_init)))
   \<and> map snd (pages (tabs (update_tab_title ''T'' 0 (open_tab None MainWindow_init))))
       \<noteq> map snd (pages (tabs (open_tab None MainWindow_init)))"
  by (simp add: two_tabs_value currentWidget_def widget_def count_def indexOf_def
      update_tab_title_def setTabText_def Let_def)

section \<open>Selecting a tab\<close>

lemma switch_tab_noop:
  "\<not> (0 \<le> index \<and> index < count (tabs w) \<and> index \<noteq> currentIndex (tabs w)) \<Longrightarrow>
     switch_tab index w = w"
  by (auto simp add: switch_tab_def setCurrentIndex_def emit_None)

lemma switch_tab_changes:
  assumes d: "distinct (map (\<lambda>p. ident (fst p)) (pages (tabs w)))"
    and r: "0 \<le> index" "index < count (tabs w)" and ne: "index \<noteq> currentIndex (tabs w)"
  shows "switch_tab index w =
     w\<lparr>tabs := \<lparr>pages = (pages (tabs w))[nat index :=
                     (fst (pages (tabs w) ! nat index), tab_title (fst (pages (tabs w) ! nat index)))],
                 currentIndex = index\<rparr>,
       url_bar := toString (tab_url (fst (pages (tabs w) ! nat index))),
       windowTitle := ''Python Browser - '' @ tab_title (fst (pages (tabs w) ! nat index))\<rparr>"
proof -
  define b where "b = fst (pages (tabs w) ! nat index)"
  define w0 where "w0 = w\<lparr>tabs := (tabs w)\<lparr>currentIndex := index\<rparr>\<rparr>"
  define w1 where "w1 = w0\<lparr>url_bar := toString (tab_url b)\<rparr>"
  from r have n: "nat index < length (pages (tabs w))" by (simp add: count_def)
  have s: "switch_tab index w = emit_currentChanged (Some index) w0"
    using r ne by (simp add: switch_tab_def setCurrentIndex_def w0_def)
  have wd: "widget (tabs w0) index = Some b"
    using r by (simp add: widget_def w0_def b_def count_def)
  have cw: "currentWidget (tabs w0) = Some b"
    using wd by (simp add: currentWidget_def w0_def)
  have u: "update_url_bar (tab_url b) (Some (ident b)) w0 = w1"
    by (simp add: update_url_bar_def cw w1_def)
  have io: "indexOf (tabs w1) (ident b) = index"
    using indexOf_pages_distinct [OF d n] r
    by (simp add: indexOf_def w1_def w0_def b_def)
  have cw1: "currentWidget (setTabText (tabs w1) index (tab_title b)) = Some b"
    using cw by (simp add: currentWidget_setTabText w1_def)
  have m1: "index \<noteq> - 1" using r by simp
  have t: "update_tab_title (tab_title b) (ident b) w1 =
             w1\<lparr>tabs := setTabText (tabs w1) index (tab_title b),
                windowTitle := ''Python Browser - '' @ tab_title b\<rparr>"
    by (simp add: update_tab_title_def Let_def io m1 cw1)
  have "switch_tab index w = w1\<lparr>tabs := setTabText (tabs w1) index (tab_title b),
                windowTitle := ''Python Browser - '' @ tab_title b\<rparr>"
    using m1 by (simp add: s emit_currentChanged_def update_ui_on_tab_change_def wd u t state_after_def)
  then show ?thesis
    using r by (simp add: w1_def w0_def setTabText_def count_def b_def)
qed

text \<open>
  C8, as the code has it. The tabs being distinct objects, selecting an index that is in
  range and is not the active one makes it the active index and sets the address bar to
  the URL of the tab there, the window title to \<open>Python Browser - \<close> followed by its
  title, and its label to its title; the tabs themselves stay as they are. Selecting
  the index that is already active, or one out of range, changes nothing.
\<close>

theorem switch_tab_refreshes:
  assumes "distinct (map (\<lambda>p. ident (fst p)) (pages (tabs w)))"
  shows "(0 \<le> index \<and> index < count (tabs w) \<and> index \<noteq> currentIndex (tabs w) \<longrightarrow>
            (\<exists>b. widget (tabs w) index = Some b
               \<and> currentIndex (tabs (switch_tab index w)) = index
               \<and> currentWidget (tabs (switch_tab index w)) = Some b
               \<and> url_bar (switch_tab index w) = toString (tab_url b)
               \<and> windowTitle (switch_tab index w) = ''Python Browser - '' @ tab_title b
               \<and> snd (pages (tabs (switch_tab index w)) ! nat index) = tab_title b
               \<and> map fst (pages (tabs (switch_tab index w))) = map fst (pages (tabs w))))
       \<and> (\<not> (0 \<le> index \<and> index < count (tabs w) \<and> index \<noteq> currentIndex (tabs w)) \<longrightarrow>
            switch_tab index w = w)"
proof (intro conjI impI)
  assume a: "0 \<le> index \<and> index < count (tabs w) \<and> index \<noteq> currentIndex (tabs w)"
  then have n: "nat index < length (pages (tabs w))" by (auto simp add: count_def)
  from a have e: "switch_tab index w =
     w\<lparr>tabs := \<lparr>pages = (pages (tabs w))[nat index :=
                     (fst (pages (tabs w) ! nat index), tab_title (fst (pages (tabs w) ! nat index)))],
                 currentIndex = index\<rparr>,
       url_bar := toString (tab_url (fst (pages (tabs w) ! nat index))),
       windowTitle := ''Python Browser - '' @ tab_title (fst (pages (tabs w) ! nat index))\<rparr>"
    using switch_tab_changes [OF assms] by blast
  show "\<exists>b. widget (tabs w) index = Some b
               \<and> currentIndex (tabs (switch_tab index w)) = index
               \<and> currentWidget (tabs (switch_tab index w)) = Some b
               \<and> url_bar (switch_tab index w) = toString (tab_url b)
               \<and> windowTitle (switch_tab index w) = ''Python Browser - '' @ tab_title b
               \<and> snd (pages (tabs (switch_tab index w)) ! nat index) = tab_title b
               \<and> map fst (pages (tabs (switch_tab index w))) = map fst (pages (tabs w))"
    using a n by (simp add: e widget_def currentWidget_def count_def map_update map_update_same)
next
  assume "\<not> (0 \<le> index \<and> index < count (tabs w) \<and> index \<noteq> currentIndex (tabs w))"
  then show "switch_tab index w = w" by (rule switch_tab_noop)
qed

theorem switch_tab_refreshes_witness:
  "distinct (map (\<lambda>p. ident (fst p)) (pages (tabs (open_tab (Some (QUrl ''https://b.test'')) MainWindow_init))))
   \<and> currentIndex (tabs (switch_tab 0 (open_tab (Some (QUrl ''https://b.test'')) MainWindow_init))) = 0
   \<and> url_bar (switch_tab 0 (open_tab (Some (QUrl ''https://b.test'')) MainWindow_init)) = ''https://www.google.com''
   \<and> url_bar (open_tab (Some (QUrl ''https://b.test'')) MainWindow_init) = ''https://b.test''
   \<and> switch_tab 7 (open_tab (Some (QUrl ''https://b.test'')) MainWindow_init)
        = open_tab (Some (QUrl ''https://b.test'')) MainWindow_init"
proof -
  let ?W = "open_tab (Some (QUrl ''https://b.test'')) MainWindow_init"
  have v: "?W =
     \<lparr>tabs = \<lparr>pages = [(\<lparr>ident = 0, tab_url = QUrl ''https://www.google.com'', tab_title = []\<rparr>, []),
                       (\<lparr>ident = 1, tab_url = QUrl ''https://b.test'', tab_title = []\<rparr>, [])],
              currentIndex = 1\<rparr>,
      url_bar = ''https://b.test'', windowTitle = ''Python Browser - '',
      next_ident = 2, deleted = []\<rparr>"
    by (simp add: MainWindow_init_value open_tab_def BrowserTab_new_def add_new_tab_def addTab_def
      setCurrentIndex_def emit_currentChanged_def update_ui_on_tab_change_def widget_def
      count_def state_after_def update_url_bar_def update_tab_title_def currentWidget_def
      indexOf_def setTabText_def Let_def)
  have h: "distinct (map (\<lambda>p. ident (fst p)) (pages (tabs ?W)))"
    by (simp add: v)
  have n: "count (tabs ?W) = 2" "currentIndex (tabs ?W) = 1" "url_bar ?W = ''https://b.test''"
      "widget (tabs ?W) 0 = Some \<lparr>ident = 0, tab_url = QUrl ''https://www.google.com'', tab_title = []\<rparr>"
    by (simp_all add: v count_def widget_def)
  show ?thesis
    using h switch_tab_refreshes [OF h, of 0] switch_tab_refreshes [OF h, of 7]
    by (simp add: n)
qed

text \<open>
  C8 as the spec words it, a refresh "for every in-range index", fails on the startup
  window after \<open>foo\<close> has been typed into the address bar: index 0 is in range and
  selecting it leaves \<open>foo\<close> in the address bar, not the URL of the tab, because the
  slot runs only when the current index changes.
\<close>

theorem switch_tab_same_index_counterexample:
  "0 \<le> (0::int) \<and> 0 < count (tabs (MainWindow_init\<lparr>url_bar := ''foo''\<rparr>))
   \<and> currentWidget (tabs (switch_tab 0 (MainWindow_init\<lparr>url_bar := ''foo''\<rparr>)))
       = Some \<lparr>ident = 0, tab_url = QUrl ''https://www.google.com'', tab_title = []\<rparr>
   \<and> url_bar (switch_tab 0 (MainWindow_init\<lparr>url_bar := ''foo''\<rparr>))
       \<noteq> toString (QUrl ''https://www.google.com'')"
  by (simp add: MainWindow_init_value switch_tab_def setCurrentIndex_def emit_currentChanged_def
      count_def currentWidget_def widget_def)

end
